theory Spec2Isabelle
  imports Complex_Main
begin

section \<open>The user controller of the account and social-graph service\<close>

text \<open>
  A shallow embedding of \<^verbatim>\<open>src/controllers/users.js\<close>. Every handler of the
  controller class becomes a function from the user collection (and the parts of the
  request context the handler reads) to the collection afterwards and the outcome of the
  request: the response the handler sets, or the error it stops with.
\<close>

subsection \<open>Documents and the collection\<close>

text \<open>
  Ids are strings: the handlers compare the stored ids through \<^verbatim>\<open>id.toString()\<close>
  with the string taken from the path. The attributes of a user are the ones the
  handlers name (the verified parameters of \<^verbatim>\<open>updateUserById\<close> and the two edge
  arrays); an embedded object is a list of key/value pairs. An edge array holds ids in
  the spelling in which the store reads them back.
\<close>

type_synonym oid = string

datatype gender = male | female

type_synonym obj = "(string \<times> string) list"

record user =
  user_id :: oid
  name :: string
  password :: string
  avatar_url :: "string option"
  gender :: "gender option"
  headline :: "string option"
  locations :: "string list"
  business :: "string option"
  employments :: "obj list"
  educations :: "obj list"
  following :: "oid list"
  followingTopics :: "oid list"

text \<open>The collection, in the order the store returns its documents.\<close>

type_synonym store = "user list"

subsection \<open>Outcomes\<close>

text \<open>
  \<^verbatim>\<open>ctx.throw(status, message)\<close> is \<open>Throw status message\<close>; the messages are the
  five texts of the source, named by what they say, and \<open>InvalidParams\<close> for the
  refusal of \<^verbatim>\<open>ctx.verifyParams\<close>. \<open>TypeError\<close> is the exception of
  reading a property of \<^verbatim>\<open>null\<close>; \<open>SyntaxError\<close> the one of \<^verbatim>\<open>new RegExp\<close>
  on a malformed pattern; \<open>NotModelled\<close> stands for an outcome that this theory does
  not fix: what the store does with a limit or a skip that is not a natural number, or
  with one whose value is not computed here.
\<close>

datatype message =
    WrongNameOrPassword
  | NoSuchUser
  | UserNotExist
  | NameTaken
  | NoPermission
  | InvalidParams

datatype error =
    Throw nat message
  | TypeError
  | SyntaxError
  | NotModelled

record payload =
  p_name :: string
  p_id :: oid

text \<open>\<^verbatim>\<open>jwt.sign(payload, secret, {expiresIn})\<close>, kept symbolic.\<close>

datatype token = Sign payload string string

datatype response =
    NoContent
  | TokenBody token
  | UsersBody "user list"
  | UserBody user string string
  | AddSuccessfully user
  | UpdateSuccessfully "user option"
  | FollowersBody "user list"

type_synonym outcome = "error + response"

subsection \<open>The store's operations\<close>

definition findOne :: "(user \<Rightarrow> bool) \<Rightarrow> store \<Rightarrow> user option" where
  "findOne p s = List.find p s"

definition findById :: "store \<Rightarrow> oid \<Rightarrow> user option" where
  "findById s i = findOne (\<lambda>u. user_id u = i) s"

definition find_where :: "(user \<Rightarrow> bool) \<Rightarrow> store \<Rightarrow> user list" where
  "find_where p s = filter p s"

text \<open>\<^verbatim>\<open>doc.save()\<close> of a loaded document writes it back over the document of its id.\<close>

fun save :: "user \<Rightarrow> store \<Rightarrow> store" where
  "save d [] = []"
| "save d (u # us) = (if user_id u = user_id d then d # us else u # save d us)"

text \<open>\<^verbatim>\<open>new User(body).save()\<close> adds the new document to the collection.\<close>

definition save_new :: "user \<Rightarrow> store \<Rightarrow> store" where
  "save_new d s = s @ [d]"

subsection \<open>The relationship graph: follow, unfollow and the topic edges\<close>

text \<open>
  \<^verbatim>\<open>arr.indexOf(x)\<close> as an option (\<open>None\<close> for \<open>-1\<close>) and
  \<^verbatim>\<open>arr.splice(index, 1)\<close>.
\<close>

fun indexOf :: "'a list \<Rightarrow> 'a \<Rightarrow> nat option" where
  "indexOf [] x = None"
| "indexOf (y # ys) x = (if y = x then Some 0 else map_option Suc (indexOf ys x))"

definition splice1 :: "nat \<Rightarrow> 'a list \<Rightarrow> 'a list" where
  "splice1 i xs = take i xs @ drop (Suc i) xs"

text \<open>
  The first argument after the collection is \<^verbatim>\<open>ctx.state.user._id\<close>, the second
  \<^verbatim>\<open>ctx.params.id\<close>. \<^verbatim>\<open>me.following\<close> on a \<^verbatim>\<open>null\<close> record raises.
  The handlers compare the string of the path with the stored ids read back as
  strings, and push the string of the path into the array, whose schema turns it into
  an id. The schema is not among the sources: \<open>cast\<close>, a parameter of the two handlers
  that push, gives the spelling in which the store reads back what was pushed.
  The handlers do not wait for \<^verbatim>\<open>me.save()\<close>; here the write is done when the
  handler answers, one request after the other.
\<close>

definition follow :: "(string \<Rightarrow> oid) \<Rightarrow> store \<Rightarrow> oid \<Rightarrow> string \<Rightarrow> store \<times> outcome" where
  "follow cast s acting target =
     (case findById s acting of
        None \<Rightarrow> (s, Inl TypeError)
      | Some me \<Rightarrow>
          if target \<notin> set (following me)
          then (save (me\<lparr>following := following me @ [cast target]\<rparr>) s, Inr NoContent)
          else (s, Inr NoContent))"

definition unfollow :: "store \<Rightarrow> oid \<Rightarrow> string \<Rightarrow> store \<times> outcome" where
  "unfollow s acting target =
     (case findById s acting of
        None \<Rightarrow> (s, Inl TypeError)
      | Some me \<Rightarrow>
          (case indexOf (following me) target of
             Some index \<Rightarrow> (save (me\<lparr>following := splice1 index (following me)\<rparr>) s, Inr NoContent)
           | None \<Rightarrow> (s, Inr NoContent)))"

definition followingTopic ::
  "(string \<Rightarrow> oid) \<Rightarrow> store \<Rightarrow> oid \<Rightarrow> string \<Rightarrow> store \<times> outcome" where
  "followingTopic cast s acting target =
     (case findById s acting of
        None \<Rightarrow> (s, Inl TypeError)
      | Some me \<Rightarrow>
          if target \<notin> set (followingTopics me)
          then (save (me\<lparr>followingTopics := followingTopics me @ [cast target]\<rparr>) s,
                Inr NoContent)
          else (s, Inr NoContent))"

definition unfollowingTopic :: "store \<Rightarrow> oid \<Rightarrow> string \<Rightarrow> store \<times> outcome" where
  "unfollowingTopic s acting target =
     (case findById s acting of
        None \<Rightarrow> (s, Inl TypeError)
      | Some me \<Rightarrow>
          (case indexOf (followingTopics me) target of
             Some index \<Rightarrow>
               (save (me\<lparr>followingTopics := splice1 index (followingTopics me)\<rparr>) s, Inr NoContent)
           | None \<Rightarrow> (s, Inr NoContent)))"



subsection \<open>The ownership and existence guards\<close>

text \<open>
  A guard takes the handler that follows it (\<^verbatim>\<open>next\<close>) and runs it only when its
  check passes. \<open>checkOwner\<close> compares \<^verbatim>\<open>ctx.params.id\<close> with
  \<^verbatim>\<open>ctx.state.user._id\<close>.
\<close>

definition checkOwner ::
  "oid \<Rightarrow> oid \<Rightarrow> (store \<Rightarrow> store \<times> outcome) \<Rightarrow> store \<Rightarrow> store \<times> outcome" where
  "checkOwner params_id acting next s =
     (if params_id \<noteq> acting then (s, Inl (Throw 403 NoPermission)) else next s)"

definition checkUserExist ::
  "oid \<Rightarrow> (store \<Rightarrow> store \<times> outcome) \<Rightarrow> store \<Rightarrow> store \<times> outcome" where
  "checkUserExist params_id next s =
     (case findById s params_id of
        None \<Rightarrow> (s, Inl (Throw 412 UserNotExist))
      | Some user \<Rightarrow> next s)"

subsection \<open>The reverse query\<close>

text \<open>\<^verbatim>\<open>User.find({following: id})\<close>: the documents whose array holds the id.\<close>

definition getUserFollowers :: "store \<Rightarrow> oid \<Rightarrow> store \<times> outcome" where
  "getUserFollowers s params_id =
     (s, Inr (FollowersBody (find_where (\<lambda>u. params_id \<in> set (following u)) s)))"

subsection \<open>Request bodies and their verification\<close>

text \<open>
  The body of a request: the parameters the handlers verify and the two edge arrays,
  each one possibly absent. The handlers give the whole body to the store
  (\<^verbatim>\<open>new User(ctx.request.body)\<close>, \<^verbatim>\<open>findByIdAndUpdate(id, ctx.request.body)\<close>), so
  that a body with an edge array writes that array; no rule verifies it. Its ids are
  taken in the spelling in which the store reads them back.
  \<^verbatim>\<open>ctx.verifyParams\<close> stops the request with status 422 when a rule fails. The types
  of the fields stand for the rules' type checks; what is left of a rule is that a
  required string is present and not empty, that an optional string, when present, is
  not empty, and that the strings of a verified array are not empty.
\<close>

record body =
  b_name :: "string option"
  b_password :: "string option"
  b_avatar_url :: "string option"
  b_gender :: "gender option"
  b_headline :: "string option"
  b_locations :: "string list option"
  b_business :: "string option"
  b_employments :: "obj list option"
  b_educations :: "obj list option"
  b_following :: "oid list option"
  b_followingTopics :: "oid list option"

record credentials =
  c_name :: "string option"
  c_password :: "string option"

definition required_string :: "string option \<Rightarrow> bool" where
  "required_string v = (case v of None \<Rightarrow> False | Some str \<Rightarrow> str \<noteq> [])"

definition optional_string :: "string option \<Rightarrow> bool" where
  "optional_string v = (case v of None \<Rightarrow> True | Some str \<Rightarrow> str \<noteq> [])"

definition optional_strings :: "string list option \<Rightarrow> bool" where
  "optional_strings v =
     (case v of None \<Rightarrow> True | Some strs \<Rightarrow> list_all (\<lambda>str. str \<noteq> []) strs)"

text \<open>The rules of \<^verbatim>\<open>updateUserById\<close>, all of them optional.\<close>

definition update_params :: "body \<Rightarrow> bool" where
  "update_params b =
     (optional_string (b_name b) \<and> optional_string (b_password b) \<and>
      optional_string (b_avatar_url b) \<and> optional_string (b_headline b) \<and>
      optional_strings (b_locations b) \<and> optional_string (b_business b))"

subsection \<open>Login\<close>

text \<open>
  \<^verbatim>\<open>User.findOne(ctx.request.body)\<close> with the verified body \<^verbatim>\<open>{name, password}\<close>:
  the first document that has both values. The secret is \<^verbatim>\<open>jwtSecret\<close> of the
  configuration.
\<close>

definition login :: "string \<Rightarrow> store \<Rightarrow> credentials \<Rightarrow> store \<times> outcome" where
  "login jwtSecret s b =
     (if \<not> (required_string (c_name b) \<and> required_string (c_password b))
      then (s, Inl (Throw 422 InvalidParams))
      else
        (case findOne (\<lambda>u. Some (name u) = c_name b \<and> Some (password u) = c_password b) s of
           None \<Rightarrow> (s, Inl (Throw 412 WrongNameOrPassword))
         | Some user \<Rightarrow>
             (s, Inr (TokenBody
                (Sign \<lparr>p_name = name user, p_id = user_id user\<rparr> jwtSecret ''1d'')))))"

subsection \<open>Creating, updating and deleting a user\<close>

text \<open>
  \<^verbatim>\<open>new User(body)\<close>: the document of a body, under the id the store gives it; the
  arrays that the body leaves out are empty, the ones it has are stored.
\<close>

definition new_User :: "oid \<Rightarrow> string \<Rightarrow> string \<Rightarrow> body \<Rightarrow> user" where
  "new_User new_id n p b =
     \<lparr>user_id = new_id, name = n, password = p,
      avatar_url = b_avatar_url b, gender = b_gender b, headline = b_headline b,
      locations = (case b_locations b of None \<Rightarrow> [] | Some v \<Rightarrow> v),
      business = b_business b,
      employments = (case b_employments b of None \<Rightarrow> [] | Some v \<Rightarrow> v),
      educations = (case b_educations b of None \<Rightarrow> [] | Some v \<Rightarrow> v),
      following = (case b_following b of None \<Rightarrow> [] | Some v \<Rightarrow> v),
      followingTopics = (case b_followingTopics b of None \<Rightarrow> [] | Some v \<Rightarrow> v)\<rparr>"

definition addUser :: "oid \<Rightarrow> store \<Rightarrow> body \<Rightarrow> store \<times> outcome" where
  "addUser new_id s b =
     (case (b_name b, b_password b) of
        (Some n, Some p) \<Rightarrow>
          if n = [] \<or> p = [] then (s, Inl (Throw 422 InvalidParams))
          else
            (case findOne (\<lambda>u. name u = n) s of
               Some repeatedUser \<Rightarrow> (s, Inl (Throw 409 NameTaken))
             | None \<Rightarrow>
                 (let user = new_User new_id n p b
                  in (save_new user s, Inr (AddSuccessfully user))))
      | _ \<Rightarrow> (s, Inl (Throw 422 InvalidParams)))"

text \<open>The partial update of a document: the fields the body has replace the stored ones.\<close>

definition apply_update :: "body \<Rightarrow> user \<Rightarrow> user" where
  "apply_update b u =
     u\<lparr>name := (case b_name b of None \<Rightarrow> name u | Some v \<Rightarrow> v),
       password := (case b_password b of None \<Rightarrow> password u | Some v \<Rightarrow> v),
       avatar_url := (case b_avatar_url b of None \<Rightarrow> avatar_url u | Some v \<Rightarrow> Some v),
       gender := (case b_gender b of None \<Rightarrow> gender u | Some v \<Rightarrow> Some v),
       headline := (case b_headline b of None \<Rightarrow> headline u | Some v \<Rightarrow> Some v),
       locations := (case b_locations b of None \<Rightarrow> locations u | Some v \<Rightarrow> v),
       business := (case b_business b of None \<Rightarrow> business u | Some v \<Rightarrow> Some v),
       employments := (case b_employments b of None \<Rightarrow> employments u | Some v \<Rightarrow> v),
       educations := (case b_educations b of None \<Rightarrow> educations u | Some v \<Rightarrow> v),
       following := (case b_following b of None \<Rightarrow> following u | Some v \<Rightarrow> v),
       followingTopics :=
         (case b_followingTopics b of None \<Rightarrow> followingTopics u | Some v \<Rightarrow> v)\<rparr>"

text \<open>
  \<^verbatim>\<open>findByIdAndUpdate\<close> answers with the document as it was before the update, or
  \<^verbatim>\<open>null\<close> when the id has none; \<^verbatim>\<open>findByIdAndRemove\<close> with the document it
  removed.
\<close>

definition findByIdAndUpdate :: "store \<Rightarrow> oid \<Rightarrow> body \<Rightarrow> store \<times> user option" where
  "findByIdAndUpdate s i b =
     (case findById s i of
        None \<Rightarrow> (s, None)
      | Some u \<Rightarrow> (save (apply_update b u) s, Some u))"

fun remove_doc :: "oid \<Rightarrow> store \<Rightarrow> store" where
  "remove_doc i [] = []"
| "remove_doc i (u # us) = (if user_id u = i then us else u # remove_doc i us)"

definition findByIdAndRemove :: "store \<Rightarrow> oid \<Rightarrow> store \<times> user option" where
  "findByIdAndRemove s i =
     (case findById s i of
        None \<Rightarrow> (s, None)
      | Some u \<Rightarrow> (remove_doc i s, Some u))"

definition updateUserById :: "store \<Rightarrow> oid \<Rightarrow> body \<Rightarrow> store \<times> outcome" where
  "updateUserById s params_id b =
     (if \<not> update_params b then (s, Inl (Throw 422 InvalidParams))
      else
        (case findByIdAndUpdate s params_id b of
           (s', user) \<Rightarrow> (s', Inr (UpdateSuccessfully user))))"

definition deleteUserById :: "store \<Rightarrow> oid \<Rightarrow> store \<times> outcome" where
  "deleteUserById s params_id =
     (case findByIdAndRemove s params_id of
        (s', None) \<Rightarrow> (s', Inl (Throw 412 NoSuchUser))
      | (s', Some user) \<Rightarrow> (s', Inr NoContent))"

subsection \<open>Reading one user: the requested fields\<close>

text \<open>
  \<^verbatim>\<open>str.split(sep)\<close> for a separator of one character, \<^verbatim>\<open>arr.join(sep)\<close> and
  \<^verbatim>\<open>arr.filter(Boolean)\<close> on strings.
\<close>

fun js_split :: "char \<Rightarrow> string \<Rightarrow> string list" where
  "js_split d [] = [[]]"
| "js_split d (c # cs) =
     (if c = d then [] # js_split d cs
      else (case js_split d cs of [] \<Rightarrow> [[c]] | w # ws \<Rightarrow> (c # w) # ws))"

fun js_join :: "string \<Rightarrow> string list \<Rightarrow> string" where
  "js_join sep [] = []"
| "js_join sep [x] = x"
| "js_join sep (x # y # ys) = x @ sep @ js_join sep (y # ys)"

definition filter_Boolean :: "string list \<Rightarrow> string list" where
  "filter_Boolean xs = filter (\<lambda>v. v \<noteq> []) xs"

definition selectFields :: "string \<Rightarrow> string" where
  "selectFields fields_str =
     js_join '' '' (map (\<lambda>v. CHR ''+'' # v) (filter_Boolean (js_split CHR '';'' fields_str)))"

definition populate_name :: "string \<Rightarrow> string" where
  "populate_name v =
     (if v = ''educations'' then ''educations.school''
      else if v = ''employments'' then ''employments.company employments.job''
      else v)"

definition popluateFields :: "string \<Rightarrow> string" where
  "popluateFields fields_str =
     js_join '' '' (map populate_name (filter_Boolean (js_split CHR '';'' fields_str)))"

definition getUserById :: "store \<Rightarrow> oid \<Rightarrow> string option \<Rightarrow> store \<times> outcome" where
  "getUserById s params_id query_fields =
     (let fields_str = (case query_fields of None \<Rightarrow> [] | Some v \<Rightarrow> v)
      in case findById s params_id of
           None \<Rightarrow> (s, Inl (Throw 412 NoSuchUser))
         | Some user \<Rightarrow>
             (s, Inr (UserBody user (selectFields fields_str) (popluateFields fields_str))))"

text \<open>
  The store reads both strings as lists of paths separated by spaces; a path behind
  \<open>+\<close> in the select string is a field to reveal. The two sets of the specification
  are what the store reads out of the strings the handler builds.
\<close>

definition paths :: "string \<Rightarrow> string list" where
  "paths str = filter_Boolean (js_split CHR '' '' str)"

definition revealSet :: "string \<Rightarrow> string set" where
  "revealSet fields_str =
     set (map tl (filter (\<lambda>p. take 1 p = ''+'') (paths (selectFields fields_str))))"

definition expansionPaths :: "string \<Rightarrow> string set" where
  "expansionPaths fields_str = set (paths (popluateFields fields_str))"

subsection \<open>Listing users: pagination\<close>

text \<open>
  The numbers of the handler are doubles. \<open>Num r\<close> is the finite double of value
  \<open>r\<close>, \<open>NaN\<close> is not a number, and \<open>Other\<close> is a number whose value this theory
  does not compute (an infinity, or the result of an operation on fractions). A value
  of the query is given as the number that \<^verbatim>\<open>value * 1\<close> makes of it, \<open>None\<close> when
  the query has no such key, so that the default applies.

  The result of an operation on doubles is the double nearest to the exact result, the
  one with the even significand when two are as near. For an integer that is
  \<open>nearest_double\<close>: an integer of more than 53 binary digits loses the digits beyond
  the 53rd. The operations are computed for integers below \<open>2 ^ 53\<close> in magnitude,
  which are doubles, and where the result is an operand or zero.
\<close>

datatype jsnum = NaN | Num rat | Other

function bit_length :: "int \<Rightarrow> nat" where
  "bit_length n = (if n \<le> 0 then 0 else Suc (bit_length (n div 2)))"
  by pat_completeness auto
termination
  by (relation "measure nat") auto

declare bit_length.simps [simp del]

definition nearest_double :: "int \<Rightarrow> int" where
  "nearest_double n =
     (let m = \<bar>n\<bar>; e = bit_length m - 53
      in if e = 0 then n
         else
           (let q = m div 2 ^ e; r = m mod 2 ^ e; half = 2 ^ (e - 1);
                q' = (if half < r \<or> (r = half \<and> odd q) then q + 1 else q)
            in sgn n * (q' * 2 ^ e)))"

definition safe_int :: "rat \<Rightarrow> bool" where
  "safe_int r = (of_int \<lfloor>r\<rfloor> = r \<and> \<bar>r\<bar> < 2 ^ 53)"

fun Math_max :: "jsnum \<Rightarrow> jsnum \<Rightarrow> jsnum" where
  "Math_max NaN _ = NaN"
| "Math_max _ NaN = NaN"
| "Math_max (Num a) (Num b) = Num (max a b)"
| "Math_max _ _ = Other"

fun js_times :: "jsnum \<Rightarrow> jsnum \<Rightarrow> jsnum" where
  "js_times NaN _ = NaN"
| "js_times _ NaN = NaN"
| "js_times (Num a) (Num b) =
     (if a = 0 \<or> b = 0 then Num 0
      else if b = 1 then Num a
      else if a = 1 then Num b
      else if safe_int a \<and> safe_int b then Num (of_int (nearest_double (\<lfloor>a\<rfloor> * \<lfloor>b\<rfloor>)))
      else Other)"
| "js_times _ _ = Other"

fun js_minus :: "jsnum \<Rightarrow> jsnum \<Rightarrow> jsnum" where
  "js_minus NaN _ = NaN"
| "js_minus _ NaN = NaN"
| "js_minus (Num a) (Num b) =
     (if b = 0 then Num a
      else if safe_int a \<and> safe_int b then Num (of_int (nearest_double (\<lfloor>a\<rfloor> - \<lfloor>b\<rfloor>)))
      else Other)"
| "js_minus _ _ = Other"

definition per_page_of :: "jsnum option \<Rightarrow> jsnum" where
  "per_page_of query_per_page =
     (let per_page = (case query_per_page of None \<Rightarrow> Num 2 | Some v \<Rightarrow> v)
      in Math_max (js_times per_page (Num 1)) (Num 1))"

definition page_of :: "jsnum option \<Rightarrow> jsnum" where
  "page_of query_page =
     (let page = (case query_page of None \<Rightarrow> Num 1 | Some v \<Rightarrow> v)
      in js_minus (Math_max (js_times page (Num 1)) (Num 1)) (Num 1))"

definition skip_of :: "jsnum option \<Rightarrow> jsnum option \<Rightarrow> jsnum" where
  "skip_of query_per_page query_page =
     js_times (page_of query_page) (per_page_of query_per_page)"

text \<open>The natural number a limit or a skip stands for, when it is one.\<close>

definition as_nat :: "jsnum \<Rightarrow> nat option" where
  "as_nat v =
     (case v of
        NaN \<Rightarrow> None
      | Num r \<Rightarrow> if 0 \<le> r \<and> of_int \<lfloor>r\<rfloor> = r then Some (nat \<lfloor>r\<rfloor>) else None
      | Other \<Rightarrow> None)"

text \<open>
  \<open>mk_regexp\<close> is \<^verbatim>\<open>new RegExp(q, 'i')\<close> of the engine: the test of the pattern, or
  \<open>None\<close> when the pattern is refused.
\<close>

definition getAllUsers ::
  "(string option \<Rightarrow> (string \<Rightarrow> bool) option) \<Rightarrow> store \<Rightarrow> string option \<Rightarrow>
   jsnum option \<Rightarrow> jsnum option \<Rightarrow> store \<times> outcome" where
  "getAllUsers mk_regexp s q query_per_page query_page =
     (let per_page = per_page_of query_per_page;
          skip = skip_of query_per_page query_page
      in case mk_regexp q of
           None \<Rightarrow> (s, Inl SyntaxError)
         | Some re \<Rightarrow>
             (case (as_nat per_page, as_nat skip) of
                (Some l, Some k) \<Rightarrow>
                  (s, Inr (UsersBody (take l (drop k (find_where (\<lambda>u. re (name u)) s)))))
              | _ \<Rightarrow> (s, Inl NotModelled)))"

subsection \<open>The invariant of the edge arrays\<close>



subsection \<open>Example requests and documents\<close>

text \<open>
  A casting for the examples: the hexadecimal digits of an id read back in lower case.
\<close>

definition lower_digit :: "char \<Rightarrow> char" where
  "lower_digit c =
     (if c = CHR ''A'' then CHR ''a'' else if c = CHR ''B'' then CHR ''b''
      else if c = CHR ''C'' then CHR ''c'' else if c = CHR ''D'' then CHR ''d''
      else if c = CHR ''E'' then CHR ''e'' else if c = CHR ''F'' then CHR ''f'' else c)"

definition lower_hex :: "string \<Rightarrow> oid" where
  "lower_hex str = map lower_digit str"

definition no_fields :: body where
  "no_fields =
     \<lparr>b_name = None, b_password = None, b_avatar_url = None, b_gender = None,
      b_headline = None, b_locations = None, b_business = None, b_employments = None,
      b_educations = None, b_following = None, b_followingTopics = None\<rparr>"

definition signup :: "string \<Rightarrow> string \<Rightarrow> body" where
  "signup n p = no_fields\<lparr>b_name := Some n, b_password := Some p\<rparr>"

definition rename :: "string \<Rightarrow> body" where
  "rename n = no_fields\<lparr>b_name := Some n\<rparr>"

definition alice_doc :: user where
  "alice_doc = new_User ''u1'' ''alice'' ''pw'' (signup ''alice'' ''pw'')"

definition bob_doc :: user where
  "bob_doc = new_User ''u2'' ''bob'' ''pw'' (signup ''bob'' ''pw'')"

definition alice_follows :: user where
  "alice_follows = alice_doc\<lparr>following := [''u2''], followingTopics := [''t1'']\<rparr>"

text \<open>Collections that the handlers build from the empty one.\<close>

definition registered :: store where
  "registered =
     fst (addUser ''u2'' (fst (addUser ''u1'' [] (signup ''alice'' ''pw''))) (signup ''bob'' ''pw''))"

definition twins :: store where
  "twins = fst (updateUserById registered ''u2'' (rename ''alice''))"

definition after_delete :: store where
  "after_delete =
     fst (deleteUserById (fst (follow lower_hex registered ''u1'' ''u2'')) ''u2'')"




subsection \<open>Notions of the specification\<close>

text \<open>The accounts that have both the name and the password of a login.\<close>

definition accounts_matching :: "string \<Rightarrow> string \<Rightarrow> store \<Rightarrow> user list" where
  "accounts_matching n p s = find_where (\<lambda>u. name u = n \<and> password u = p) s"

text \<open>
  A query value that is an integer, or absent, as the number the handler computes with;
  and the integer that stands for an absent value.
\<close>

definition int_query :: "int option \<Rightarrow> jsnum option" where
  "int_query v = map_option (\<lambda>n. Num (of_int n)) v"

definition or_default :: "int \<Rightarrow> int option \<Rightarrow> int" where
  "or_default d v = (case v of None \<Rightarrow> d | Some n \<Rightarrow> n)"

definition safe_query :: "int option \<Rightarrow> bool" where
  "safe_query v = (case v of None \<Rightarrow> True | Some n \<Rightarrow> \<bar>n\<bar> < 2 ^ 53)"

section \<open>Properties\<close>

subsection \<open>The store's operations and the edge handlers\<close>
























subsection \<open>The example collections\<close>

lemma registered_eq: "registered = [alice_doc, bob_doc]"
  by (simp add: Let_def registered_def addUser_def signup_def no_fields_def findOne_def
      save_new_def alice_doc_def bob_doc_def new_User_def)

lemma findById_registered:
  "findById [alice_doc, bob_doc] ''u1'' = Some alice_doc"
  "findById [alice_doc, bob_doc] ''u2'' = Some bob_doc"
  by (simp_all add: findById_def findOne_def alice_doc_def bob_doc_def new_User_def)

lemma user_ids: "user_id alice_doc = ''u1''" "user_id bob_doc = ''u2''"
  by (simp_all add: alice_doc_def bob_doc_def new_User_def)

lemma twins_eq: "twins = [alice_doc, bob_doc\<lparr>name := ''alice''\<rparr>]"
  by (simp add: twins_def registered_eq updateUserById_def findByIdAndUpdate_def
      findById_registered update_params_def optional_string_def optional_strings_def
      rename_def no_fields_def apply_update_def user_ids)

lemma lower_hex_examples: "lower_hex ''u2'' = ''u2''" "lower_hex ''u3'' = ''u3''"
  "lower_hex ''t1'' = ''t1''" "lower_hex ''AB'' = ''ab''"
  by (simp_all add: lower_hex_def lower_digit_def)

lemma after_delete_eq: "after_delete = [alice_doc\<lparr>following := [''u2'']\<rparr>]"
  by (simp add: after_delete_def registered_eq follow_def findById_registered user_ids
      deleteUserById_def findByIdAndRemove_def lower_hex_examples)
    (simp add: alice_doc_def new_User_def findById_def findOne_def bob_doc_def signup_def
      no_fields_def lower_hex_def lower_digit_def)




subsection \<open>Following twice, unfollowing twice\<close>




subsection \<open>Membership and duplicates\<close>















subsection \<open>An acting id without a document\<close>

text \<open>
  Claim C9. When the id of the session token resolves to no document, the four edge
  handlers read a property of \<^verbatim>\<open>null\<close>: they stop with a \<open>TypeError\<close>, not
  with one of the statuses the controller throws, and write nothing.
\<close>

theorem missing_actor_crashes:
  assumes "findById s acting = None"
  shows "follow cast s acting t = (s, Inl TypeError) \<and>
         unfollow s acting t = (s, Inl TypeError) \<and>
         followingTopic cast s acting t = (s, Inl TypeError) \<and>
         unfollowingTopic s acting t = (s, Inl TypeError)"
  using assms by (simp add: follow_def unfollow_def followingTopic_def unfollowingTopic_def)

theorem missing_actor_crashes_witness:
  "findById [bob_doc] ''u1'' = None \<and>
   follow lower_hex [bob_doc] ''u1'' ''u2'' = ([bob_doc], Inl TypeError) \<and>
   unfollow [bob_doc] ''u1'' ''u2'' = ([bob_doc], Inl TypeError) \<and>
   followingTopic lower_hex [bob_doc] ''u1'' ''t1'' = ([bob_doc], Inl TypeError)"
  using missing_actor_crashes [of "[bob_doc]" "''u1''" lower_hex "''u2''"]
    missing_actor_crashes [of "[bob_doc]" "''u1''" lower_hex "''t1''"]
  by (simp add: findById_def findOne_def bob_doc_def new_User_def)

subsection \<open>Login\<close>

lemma find_filter_conv:
  "List.find P xs = (case filter P xs of [] \<Rightarrow> None | x # _ \<Rightarrow> Some x)"
  by (induction xs) auto

text \<open>
  Claim C5, as amended. For a verified name and password: when no account has both,
  login stops with status 412 (wrong name or password) and changes nothing; when at
  least one has both, it answers with a token signed for the payload of exactly the
  name and the id of the first such account, valid for \<open>1d\<close>. The payload has no
  other field, so the password is not in it.
\<close>

theorem login_contract:
  assumes "n \<noteq> []" and "p \<noteq> []"
  shows "(accounts_matching n p s = [] \<longrightarrow>
            login jwtSecret s \<lparr>c_name = Some n, c_password = Some p\<rparr> =
              (s, Inl (Throw 412 WrongNameOrPassword))) \<and>
         (\<forall>u us. accounts_matching n p s = u # us \<longrightarrow>
            login jwtSecret s \<lparr>c_name = Some n, c_password = Some p\<rparr> =
              (s, Inr (TokenBody (Sign \<lparr>p_name = n, p_id = user_id u\<rparr> jwtSecret ''1d''))))"
proof (intro conjI allI impI)
  assume "accounts_matching n p s = []"
  with assms show "login jwtSecret s \<lparr>c_name = Some n, c_password = Some p\<rparr> =
      (s, Inl (Throw 412 WrongNameOrPassword))"
    by (simp add: login_def required_string_def findOne_def find_filter_conv
        accounts_matching_def find_where_def)
next
  fix u us
  assume m: "accounts_matching n p s = u # us"
  then have "u \<in> set (filter (\<lambda>u. name u = n \<and> password u = p) s)"
    by (simp add: accounts_matching_def find_where_def)
  then have "name u = n" by simp
  with assms m show "login jwtSecret s \<lparr>c_name = Some n, c_password = Some p\<rparr> =
      (s, Inr (TokenBody (Sign \<lparr>p_name = n, p_id = user_id u\<rparr> jwtSecret ''1d'')))"
    by (simp add: login_def required_string_def findOne_def find_filter_conv
        accounts_matching_def find_where_def)
qed

theorem login_contract_witness:
  "accounts_matching ''bob'' ''wrong'' [alice_doc, bob_doc] = [] \<and>
   login ''secret'' [alice_doc, bob_doc] \<lparr>c_name = Some ''bob'', c_password = Some ''wrong''\<rparr> =
     ([alice_doc, bob_doc], Inl (Throw 412 WrongNameOrPassword)) \<and>
   accounts_matching ''bob'' ''pw'' [alice_doc, bob_doc] = [bob_doc] \<and>
   login ''secret'' [alice_doc, bob_doc] \<lparr>c_name = Some ''bob'', c_password = Some ''pw''\<rparr> =
     ([alice_doc, bob_doc],
      Inr (TokenBody (Sign \<lparr>p_name = ''bob'', p_id = ''u2''\<rparr> ''secret'' ''1d'')))"
proof -
  have none: "accounts_matching ''bob'' ''wrong'' [alice_doc, bob_doc] = []"
    by (simp add: accounts_matching_def find_where_def alice_doc_def bob_doc_def new_User_def)
  have one: "accounts_matching ''bob'' ''pw'' [alice_doc, bob_doc] = [bob_doc]"
    by (simp add: accounts_matching_def find_where_def alice_doc_def bob_doc_def new_User_def)
  have ne: "''bob'' \<noteq> []" "''wrong'' \<noteq> []" "''pw'' \<noteq> []" by simp_all
  from login_contract [OF ne(1) ne(2), of "[alice_doc, bob_doc]" "''secret''"]
    login_contract [OF ne(1) ne(3), of "[alice_doc, bob_doc]" "''secret''"] none one user_ids
  show ?thesis by simp
qed

text \<open>
  Claim C5 as stated fails where two accounts match: in the collection \<open>twins\<close>,
  which two registrations and one update of a name build, two accounts have the name
  and the password, and login succeeds with the id of the first.
\<close>

theorem login_ambiguous_counterexample:
  "length (accounts_matching ''alice'' ''pw'' twins) = 2 \<and>
   login ''secret'' twins \<lparr>c_name = Some ''alice'', c_password = Some ''pw''\<rparr> =
     (twins, Inr (TokenBody (Sign \<lparr>p_name = ''alice'', p_id = ''u1''\<rparr> ''secret'' ''1d'')))"
  by (simp add: twins_eq accounts_matching_def find_where_def login_def required_string_def
      findOne_def alice_doc_def bob_doc_def new_User_def)

subsection \<open>Names of accounts\<close>

text \<open>
  Claim C6. A registration under a name that is taken stops with status 409 and leaves
  the collection as it is; the update handler has no such check, and renames the second
  account to the name of the first: two documents of one name.
\<close>

theorem update_duplicates_name:
  "addUser ''u1'' [] (signup ''alice'' ''pw'') = ([alice_doc], Inr (AddSuccessfully alice_doc)) \<and>
   addUser ''u2'' [alice_doc] (signup ''bob'' ''pw'') =
     ([alice_doc, bob_doc], Inr (AddSuccessfully bob_doc)) \<and>
   addUser ''u3'' [alice_doc, bob_doc] (signup ''alice'' ''pw2'') =
     ([alice_doc, bob_doc], Inl (Throw 409 NameTaken)) \<and>
   distinct (map name [alice_doc, bob_doc]) \<and>
   updateUserById [alice_doc, bob_doc] ''u2'' (rename ''alice'') =
     ([alice_doc, bob_doc\<lparr>name := ''alice''\<rparr>], Inr (UpdateSuccessfully (Some bob_doc))) \<and>
   map name [alice_doc, bob_doc\<lparr>name := ''alice''\<rparr>] = [''alice'', ''alice'']"
  by (simp add: Let_def addUser_def signup_def no_fields_def findOne_def save_new_def
      alice_doc_def bob_doc_def new_User_def updateUserById_def findByIdAndUpdate_def
      findById_def update_params_def optional_string_def optional_strings_def rename_def
      apply_update_def)

lemma addUser_conflict:
  "n \<noteq> [] \<Longrightarrow> p \<noteq> [] \<Longrightarrow> b_name b = Some n \<Longrightarrow> b_password b = Some p \<Longrightarrow> n \<in> name ` set s \<Longrightarrow>
   addUser new_id s b = (s, Inl (Throw 409 NameTaken))"
  by (auto simp: addUser_def findOne_def find_None_iff split: option.splits)

lemma addUser_keeps_names_distinct:
  "distinct (map name s) \<Longrightarrow> distinct (map name (fst (addUser new_id s b)))"
  by (auto simp: addUser_def findOne_def find_None_iff save_new_def new_User_def Let_def
      split: option.splits)

subsection \<open>The ownership guard\<close>

text \<open>
  Claim C7. Whatever handler follows the guard: when the id of the path differs from
  the id of the session token the request stops with status 403 and the collection is
  the one before, the handler never runs; when the two ids are equal the guard is the
  handler itself. Nothing but the equality of the two ids decides.
\<close>

theorem checkOwner_gate:
  "(params_id \<noteq> acting \<longrightarrow>
      checkOwner params_id acting next s = (s, Inl (Throw 403 NoPermission))) \<and>
   (params_id = acting \<longrightarrow> checkOwner params_id acting next s = next s)"
  by (simp add: checkOwner_def)

theorem checkOwner_gate_witness:
  "checkOwner ''u2'' ''u1'' (\<lambda>s. updateUserById s ''u2'' (rename ''mallory'')) [alice_doc, bob_doc] =
     ([alice_doc, bob_doc], Inl (Throw 403 NoPermission)) \<and>
   checkOwner ''u2'' ''u1'' (\<lambda>s. deleteUserById s ''u2'') [alice_doc, bob_doc] =
     ([alice_doc, bob_doc], Inl (Throw 403 NoPermission)) \<and>
   checkOwner ''u2'' ''u2'' (\<lambda>s. deleteUserById s ''u2'') [alice_doc, bob_doc] =
     ([alice_doc], Inr NoContent)"
proof -
  have del: "deleteUserById [alice_doc, bob_doc] ''u2'' = ([alice_doc], Inr NoContent)"
    by (simp add: deleteUserById_def findByIdAndRemove_def findById_registered user_ids)
  from checkOwner_gate [of "''u2''" "''u1''" "\<lambda>s. updateUserById s ''u2'' (rename ''mallory'')"
      "[alice_doc, bob_doc]"]
    checkOwner_gate [of "''u2''" "''u1''" "\<lambda>s. deleteUserById s ''u2''" "[alice_doc, bob_doc]"]
    checkOwner_gate [of "''u2''" "''u2''" "\<lambda>s. deleteUserById s ''u2''" "[alice_doc, bob_doc]"]
    del
  show ?thesis by simp
qed

subsection \<open>Followers\<close>

text \<open>
  Claim C8, as amended. For every id the followers handler succeeds, with the
  documents of the collection whose \<open>following\<close> holds the id and no others; it
  checks nothing about the id. An id that resolves to no user is refused with status
  412 only by the existence guard, where a route puts it before the handler.
\<close>

theorem followers_exact:
  "(\<exists>fs. getUserFollowers s i = (s, Inr (FollowersBody fs)) \<and>
         set fs = {u \<in> set s. i \<in> set (following u)}) \<and>
   (findById s i = None \<longrightarrow>
      checkUserExist i (\<lambda>s'. getUserFollowers s' i) s = (s, Inl (Throw 412 UserNotExist)))"
  by (auto simp: getUserFollowers_def find_where_def checkUserExist_def)

theorem followers_exact_witness:
  "getUserFollowers [alice_follows, bob_doc] ''u2'' =
     ([alice_follows, bob_doc], Inr (FollowersBody [alice_follows])) \<and>
   findById [alice_follows, bob_doc] ''ghost'' = None \<and>
   checkUserExist ''ghost'' (\<lambda>s'. getUserFollowers s' ''ghost'') [alice_follows, bob_doc] =
     ([alice_follows, bob_doc], Inl (Throw 412 UserNotExist))"
proof -
  have absent: "findById [alice_follows, bob_doc] ''ghost'' = None"
    by (simp add: findById_def findOne_def alice_follows_def alice_doc_def bob_doc_def
        new_User_def)
  have "getUserFollowers [alice_follows, bob_doc] ''u2'' =
      ([alice_follows, bob_doc], Inr (FollowersBody [alice_follows]))"
    by (simp add: getUserFollowers_def find_where_def alice_follows_def alice_doc_def
        bob_doc_def new_User_def signup_def no_fields_def)
  with followers_exact [of "[alice_follows, bob_doc]" "''ghost''"] absent
  show ?thesis by simp
qed

text \<open>
  Claim C8 as stated fails for an id without a user: after the followed user is
  deleted, the handler still answers with the follower whose edge is left.
\<close>

theorem followers_absent_counterexample:
  "findById after_delete ''u2'' = None \<and>
   getUserFollowers after_delete ''u2'' =
     (after_delete, Inr (FollowersBody [alice_doc\<lparr>following := [''u2'']\<rparr>]))"
  by (simp add: after_delete_eq getUserFollowers_def find_where_def findById_def findOne_def
      user_ids)

subsection \<open>Update and deletion of an absent id\<close>

text \<open>
  Claim C10. For an id that the collection does not hold, an update whose body passes
  the verification answers success with a \<^verbatim>\<open>null\<close> prior document and changes
  nothing, while the deletion of the same id stops with status 412.
\<close>

theorem update_absent_succeeds:
  assumes "findById s i = None" and "update_params b"
  shows "updateUserById s i b = (s, Inr (UpdateSuccessfully None)) \<and>
         deleteUserById s i = (s, Inl (Throw 412 NoSuchUser))"
  using assms
  by (simp add: updateUserById_def findByIdAndUpdate_def deleteUserById_def
      findByIdAndRemove_def)

lemma updateUserById_refused:
  "\<not> update_params b \<Longrightarrow> updateUserById s i b = (s, Inl (Throw 422 InvalidParams))"
  by (simp add: updateUserById_def)

theorem update_absent_succeeds_witness:
  "findById [alice_doc, bob_doc] ''ghost'' = None \<and>
   update_params (rename ''carol'') \<and>
   \<not> update_params (rename []) \<and>
   updateUserById [alice_doc, bob_doc] ''ghost'' (rename ''carol'') =
     ([alice_doc, bob_doc], Inr (UpdateSuccessfully None)) \<and>
   deleteUserById [alice_doc, bob_doc] ''ghost'' =
     ([alice_doc, bob_doc], Inl (Throw 412 NoSuchUser))"
proof -
  have absent: "findById [alice_doc, bob_doc] ''ghost'' = None"
    by (simp add: findById_def findOne_def alice_doc_def bob_doc_def new_User_def)
  have ok: "update_params (rename ''carol'')" and no: "\<not> update_params (rename [])"
    by (simp_all add: update_params_def optional_string_def optional_strings_def rename_def
        no_fields_def)
  from update_absent_succeeds [OF absent ok] absent ok no show ?thesis by simp
qed

subsection \<open>The requested fields\<close>

lemma js_split_not_Nil: "js_split d str \<noteq> []"
  by (induction str) (auto split: list.splits)

lemma js_split_append: "js_split d (x @ d # rest) = js_split d x @ js_split d rest"
proof (induction x)
  case Nil
  show ?case by simp
next
  case (Cons c cs)
  obtain w ws where "js_split d cs = w # ws"
    using js_split_not_Nil [of d cs] by (cases "js_split d cs") auto
  with Cons show ?case by simp
qed

lemma js_split_no_sep: "d \<notin> set x \<Longrightarrow> js_split d x = [x]"
  by (induction x) auto

lemma js_split_join:
  "\<forall>x\<in>set xs. d \<notin> set x \<Longrightarrow> xs \<noteq> [] \<Longrightarrow> js_split d (js_join [d] xs) = xs"
proof (induction "[d]" xs rule: js_join.induct)
  case 1
  then show ?case by simp
next
  case (2 x)
  then show ?case by (simp add: js_split_no_sep)
next
  case (3 x y ys)
  then show ?case by (simp add: js_split_append js_split_no_sep)
qed

lemma split_discard:
  assumes "\<forall>x\<in>set xs. d \<notin> set x"
  shows "filter_Boolean (js_split d (js_join [d] xs)) = filter_Boolean xs"
proof (cases xs)
  case Nil
  then show ?thesis by (simp add: filter_Boolean_def)
next
  case (Cons a as)
  with assms js_split_join [of xs d] show ?thesis by simp
qed

lemma filter_Boolean_append: "filter_Boolean (xs @ ys) = filter_Boolean xs @ filter_Boolean ys"
  by (simp add: filter_Boolean_def)

lemma paths_join: "paths (js_join '' '' ys) = concat (map paths ys)"
proof (induction "'' ''" ys rule: js_join.induct)
  case 1
  show ?case by (simp add: paths_def filter_Boolean_def)
next
  case (2 x)
  show ?case by simp
next
  case (3 x y ys)
  have "paths (x @ CHR '' '' # js_join '' '' (y # ys)) = paths x @ paths (js_join '' '' (y # ys))"
    unfolding paths_def by (simp only: js_split_append filter_Boolean_append)
  with 3 show ?case by simp
qed

lemma paths_single: "v \<noteq> [] \<Longrightarrow> CHR '' '' \<notin> set v \<Longrightarrow> paths v = [v]"
  by (simp add: paths_def js_split_no_sep filter_Boolean_def)

lemma filter_Boolean_set: "set (filter_Boolean xs) = {x \<in> set xs. x \<noteq> []}"
  by (auto simp: filter_Boolean_def)

lemma concat_singletons: "\<forall>y\<in>set ys. f y = [g y] \<Longrightarrow> concat (map f ys) = map g ys"
  by (induction ys) auto

lemma revealSet_join:
  assumes "\<forall>x\<in>set xs. CHR '';'' \<notin> set x \<and> CHR '' '' \<notin> set x"
  shows "revealSet (js_join '';'' xs) = set (filter_Boolean xs)"
proof -
  let ?ys = "filter_Boolean xs"
  have sp: "filter_Boolean (js_split CHR '';'' (js_join '';'' xs)) = ?ys"
    using assms by (intro split_discard) simp
  have each: "\<forall>y\<in>set ?ys. paths (CHR ''+'' # y) = [CHR ''+'' # y]"
    using assms by (auto simp: filter_Boolean_set intro!: paths_single)
  then have "concat (map (\<lambda>y. paths (CHR ''+'' # y)) ?ys) = map ((#) CHR ''+'') ?ys"
    by (rule concat_singletons)
  then have "paths (selectFields (js_join '';'' xs)) = map ((#) CHR ''+'') ?ys"
    by (simp add: selectFields_def sp paths_join comp_def)
  then show ?thesis
    by (simp add: revealSet_def filter_id_conv comp_def)
qed

lemma popluateFields_single:
  "v \<noteq> [] \<Longrightarrow> CHR '';'' \<notin> set v \<Longrightarrow> popluateFields v = populate_name v"
  by (simp add: popluateFields_def js_split_no_sep filter_Boolean_def)

lemma expansionPaths_join:
  assumes "\<forall>x\<in>set xs. CHR '';'' \<notin> set x"
  shows "expansionPaths (js_join '';'' xs) = (\<Union>x\<in>set (filter_Boolean xs). expansionPaths x)"
proof -
  have sp: "filter_Boolean (js_split CHR '';'' (js_join '';'' xs)) = filter_Boolean xs"
    using assms by (intro split_discard) simp
  have "\<forall>x\<in>set (filter_Boolean xs). expansionPaths x = set (paths (populate_name x))"
    using assms by (auto simp: filter_Boolean_set expansionPaths_def popluateFields_single)
  then show ?thesis
    by (simp add: expansionPaths_def popluateFields_def sp paths_join)
qed

lemma expansionPaths_other:
  assumes "v \<noteq> ''educations''" "v \<noteq> ''employments''" "v \<noteq> []"
    "CHR '';'' \<notin> set v" "CHR '' '' \<notin> set v"
  shows "expansionPaths v = {v}"
  using assms by (simp add: expansionPaths_def popluateFields_single populate_name_def paths_single)

lemma projection_examples:
  "revealSet [] = {}"
  "revealSet ''avatar_url;gender'' = {''avatar_url'', ''gender''}"
  "expansionPaths ''educations'' = {''educations.school''}"
  "expansionPaths ''employments'' = {''employments.company'', ''employments.job''}"
  by (simp_all add: revealSet_def expansionPaths_def selectFields_def popluateFields_def
      paths_def filter_Boolean_def populate_name_def)

text \<open>
  Claim C3. The requested names of a string are its parts between the semicolons,
  without the empty ones: for names free of semicolons, joined with semicolons, the
  handler recovers the non-empty names, the expansion of the list is the union of the
  expansions of its names, and (names also free of spaces) the reveal set is the set of
  the non-empty names. The reveal set of the empty string is empty, that of
  \<open>avatar_url;gender\<close> is the two names; \<open>educations\<close> expands to
  \<open>educations.school\<close>, \<open>employments\<close> to \<open>employments.company\<close> and
  \<open>employments.job\<close>, every other name to itself.
\<close>

theorem field_projection:
  "((\<forall>x\<in>set xs. CHR '';'' \<notin> set x) \<longrightarrow>
      filter_Boolean (js_split CHR '';'' (js_join '';'' xs)) = filter_Boolean xs \<and>
      expansionPaths (js_join '';'' xs) = (\<Union>x\<in>set (filter_Boolean xs). expansionPaths x)) \<and>
   ((\<forall>x\<in>set xs. CHR '';'' \<notin> set x \<and> CHR '' '' \<notin> set x) \<longrightarrow>
      revealSet (js_join '';'' xs) = set (filter_Boolean xs)) \<and>
   set (filter_Boolean xs) = {x \<in> set xs. x \<noteq> []} \<and>
   revealSet [] = {} \<and>
   revealSet ''avatar_url;gender'' = {''avatar_url'', ''gender''} \<and>
   expansionPaths ''educations'' = {''educations.school''} \<and>
   expansionPaths ''employments'' = {''employments.company'', ''employments.job''} \<and>
   (v \<noteq> ''educations'' \<and> v \<noteq> ''employments'' \<longrightarrow> populate_name v = v) \<and>
   (v \<noteq> ''educations'' \<and> v \<noteq> ''employments'' \<and> v \<noteq> [] \<and>
    CHR '';'' \<notin> set v \<and> CHR '' '' \<notin> set v \<longrightarrow> expansionPaths v = {v})"
proof -
  have "v \<noteq> ''educations'' \<and> v \<noteq> ''employments'' \<longrightarrow> populate_name v = v"
    by (simp add: populate_name_def)
  then show ?thesis
    using split_discard [of xs "CHR '';''"] expansionPaths_join [of xs] revealSet_join [of xs]
      filter_Boolean_set [of xs] projection_examples expansionPaths_other [of v]
    by (simp only: simp_thms) blast
qed

theorem field_projection_witness:
  "filter_Boolean (js_split CHR '';'' ''avatar_url;;following;'') = [''avatar_url'', ''following''] \<and>
   revealSet ''avatar_url;;following;'' = {''avatar_url'', ''following''} \<and>
   expansionPaths ''avatar_url;;following;'' = {''avatar_url'', ''following''} \<and>
   populate_name ''following'' = ''following'' \<and>
   expansionPaths ''following'' = {''following''}"
proof -
  have j: "js_join '';'' [''avatar_url'', [], ''following'', []] = ''avatar_url;;following;''"
    by simp
  have f: "filter_Boolean [''avatar_url'', [], ''following'', []] = [''avatar_url'', ''following'']"
    by (simp add: filter_Boolean_def)
  have h: "\<forall>x\<in>set [''avatar_url'', [], ''following'', []]. CHR '';'' \<notin> set x \<and> CHR '' '' \<notin> set x"
    by simp
  have e: "expansionPaths ''avatar_url'' = {''avatar_url''}"
    using field_projection [of "[]" "''avatar_url''"] by simp
  from field_projection [of "[''avatar_url'', [], ''following'', []]" "''following''"] h e
  show ?thesis unfolding j f by simp
qed

subsection \<open>Pagination\<close>

lemma bit_length_le: "n < 2 ^ k \<Longrightarrow> bit_length n \<le> k"
proof (induction k arbitrary: n)
  case 0
  then show ?case by (simp add: bit_length.simps)
next
  case (Suc k)
  then have "n div 2 < 2 ^ k" by simp
  then have "bit_length (n div 2) \<le> k" by (rule Suc.IH)
  then show ?case by (subst bit_length.simps) simp
qed

lemma nearest_double_id: "\<bar>n\<bar> < 2 ^ 53 \<Longrightarrow> nearest_double n = n"
proof -
  assume "\<bar>n\<bar> < 2 ^ 53"
  then have "bit_length \<bar>n\<bar> \<le> 53" by (rule bit_length_le)
  then show ?thesis by (simp add: nearest_double_def Let_def)
qed

lemma nearest_double_nonneg: "0 \<le> n \<Longrightarrow> 0 \<le> nearest_double n"
  by (auto simp: nearest_double_def Let_def sgn_if pos_imp_zdiv_nonneg_iff
      intro!: mult_nonneg_nonneg add_nonneg_nonneg)

lemma safe_int_of_int: "safe_int (of_int n) \<longleftrightarrow> \<bar>n\<bar> < 2 ^ 53"
proof -
  have "\<bar>rat_of_int n\<bar> < 2 ^ 53 \<longleftrightarrow> rat_of_int \<bar>n\<bar> < rat_of_int (2 ^ 53)"
    by simp
  also have "\<dots> \<longleftrightarrow> \<bar>n\<bar> < 2 ^ 53" by (simp only: of_int_less_iff)
  finally show ?thesis by (simp add: safe_int_def)
qed

lemma js_times_int:
  assumes "\<bar>a\<bar> < 2 ^ 53" and "\<bar>b\<bar> < 2 ^ 53"
  shows "js_times (Num (of_int a)) (Num (of_int b)) = Num (of_int (nearest_double (a * b)))"
proof -
  have z: "nearest_double 0 = 0" by (simp add: nearest_double_id)
  consider "a = 0 \<or> b = 0" | "a \<noteq> 0" "b = 1" | "a \<noteq> 0" "b \<noteq> 0" "b \<noteq> 1" "a = 1"
    | "a \<noteq> 0" "b \<noteq> 0" "b \<noteq> 1" "a \<noteq> 1" by blast
  then show ?thesis
  proof cases
    case 1
    then show ?thesis by (auto simp: z)
  next
    case 2
    with assms show ?thesis by (simp add: nearest_double_id)
  next
    case 3
    with assms show ?thesis by (simp add: nearest_double_id)
  next
    case 4
    with assms show ?thesis by (simp add: safe_int_of_int)
  qed
qed

lemma js_minus_int:
  assumes "\<bar>a\<bar> < 2 ^ 53" and "\<bar>b\<bar> < 2 ^ 53"
  shows "js_minus (Num (of_int a)) (Num (of_int b)) = Num (of_int (nearest_double (a - b)))"
  using assms by (simp add: safe_int_of_int nearest_double_id)

lemma as_nat_of_int: "0 \<le> n \<Longrightarrow> as_nat (Num (of_int n)) = Some (nat n)"
  by (simp add: as_nat_def)

lemma per_page_of_Num: "per_page_of (Some (Num r)) = Num (max r 1)"
  by (simp add: per_page_of_def)

lemma per_page_of_int: "per_page_of (int_query pp) = Num (of_int (max (or_default 2 pp) 1))"
  by (cases pp) (simp_all add: per_page_of_def int_query_def or_default_def max_def)

lemma clamped_safe:
  assumes "safe_query v" and "\<bar>d\<bar> < 2 ^ 53"
  shows "\<bar>max (or_default d v) 1\<bar> < 2 ^ 53" and "\<bar>max (or_default d v) 1 - 1\<bar> < 2 ^ 53"
proof -
  have "\<bar>or_default d v\<bar> < 2 ^ 53"
    using assms by (cases v) (simp_all add: safe_query_def or_default_def)
  then show "\<bar>max (or_default d v) 1\<bar> < 2 ^ 53" and "\<bar>max (or_default d v) 1 - 1\<bar> < 2 ^ 53"
    by (simp_all add: max_def abs_if split: if_splits)
qed

lemma page_of_int:
  assumes "safe_query pg"
  shows "page_of (int_query pg) = Num (of_int (max (or_default 1 pg) 1 - 1))"
proof -
  let ?m = "max (or_default 1 pg) 1"
  have m: "\<bar>?m\<bar> < 2 ^ 53" "\<bar>?m - 1\<bar> < 2 ^ 53"
    using clamped_safe [OF assms, of 1] by simp_all
  have one: "\<bar>1 :: int\<bar> < 2 ^ 53" by simp
  have "Math_max (js_times (case int_query pg of None \<Rightarrow> Num 1 | Some v \<Rightarrow> v) (Num 1)) (Num 1)
      = Num (of_int ?m)"
    by (cases pg) (simp_all add: int_query_def or_default_def max_def)
  moreover have "js_minus (Num (of_int ?m)) (Num (of_int 1)) = Num (of_int (nearest_double (?m - 1)))"
    by (rule js_minus_int [OF m(1) one])
  ultimately show ?thesis
    using m(2) by (simp add: page_of_def nearest_double_id)
qed

lemma skip_of_int:
  assumes "safe_query pp" and "safe_query pg"
  shows "skip_of (int_query pp) (int_query pg) =
     Num (of_int (nearest_double ((max (or_default 1 pg) 1 - 1) * max (or_default 2 pp) 1)))"
proof -
  have "\<bar>max (or_default 1 pg) 1 - 1\<bar> < 2 ^ 53"
    using clamped_safe(2) [OF assms(2), of 1] by simp
  moreover have "\<bar>max (or_default 2 pp) 1\<bar> < 2 ^ 53"
    using clamped_safe(1) [OF assms(1), of 2] by simp
  ultimately show ?thesis
    unfolding skip_of_def per_page_of_int page_of_int [OF assms(2)] by (rule js_times_int)
qed

lemma safe_query_examples:
  "safe_query None" "safe_query (Some 0)" "safe_query (Some 1)" "safe_query (Some 2)"
  "safe_query (Some 3)" "safe_query (Some 134217729)" "safe_query (Some 134217730)"
  by (simp_all add: safe_query_def)

lemma int_query_examples:
  "int_query None = None" "int_query (Some 0) = Some (Num 0)" "int_query (Some 1) = Some (Num 1)"
  "int_query (Some 2) = Some (Num 2)" "int_query (Some 3) = Some (Num 3)"
  "int_query (Some 134217729) = Some (Num 134217729)"
  "int_query (Some 134217730) = Some (Num 134217730)"
  by (simp_all add: int_query_def)

lemma nearest_double_example: "nearest_double 18014398777917441 = 18014398777917440"
proof -
  have "bit_length 18014398777917441 = 55" by (simp add: bit_length.simps)
  then show ?thesis by (simp add: nearest_double_def Let_def)
qed

text \<open>
  Claim C4, as amended. For query values that are absent (defaults 2 for
  \<open>per_page\<close> and 1 for \<open>page\<close>) or integers below \<open>2 ^ 53\<close> in magnitude: the
  limit is the value clamped to at least 1; the skip is the double nearest to (page
  clamped to at least 1, minus 1) times the limit, which is that product itself when
  the product is below \<open>2 ^ 53\<close>; and the answer is the matching accounts from the
  skip on, at most limit many. For any finite number the clamp is
  \<^verbatim>\<open>Math.max(value, 1)\<close>, with no rounding to an integer.
\<close>

theorem pagination:
  assumes "safe_query pp" and "safe_query pg"
  shows "per_page_of (int_query pp) = Num (of_int (max (or_default 2 pp) 1)) \<and>
         skip_of (int_query pp) (int_query pg) =
           Num (of_int (nearest_double
             ((max (or_default 1 pg) 1 - 1) * max (or_default 2 pp) 1))) \<and>
         ((max (or_default 1 pg) 1 - 1) * max (or_default 2 pp) 1 < 2 ^ 53 \<longrightarrow>
            skip_of (int_query pp) (int_query pg) =
              Num (of_int ((max (or_default 1 pg) 1 - 1) * max (or_default 2 pp) 1))) \<and>
         (mk_regexp q = Some re \<longrightarrow>
            (\<exists>us. getAllUsers mk_regexp s q (int_query pp) (int_query pg) =
                    (s, Inr (UsersBody us)) \<and>
                  us = take (nat (max (or_default 2 pp) 1))
                         (drop (nat (nearest_double
                            ((max (or_default 1 pg) 1 - 1) * max (or_default 2 pp) 1)))
                            (find_where (\<lambda>u. re (name u)) s)) \<and>
                  length us \<le> nat (max (or_default 2 pp) 1))) \<and>
         per_page_of (Some (Num r)) = Num (max r 1)"
proof -
  let ?L = "max (or_default 2 pp) 1"
  let ?P = "max (or_default 1 pg) 1 - 1"
  note skip = skip_of_int [OF assms]
  have nonneg: "0 \<le> ?P * ?L" by simp
  have exact: "?P * ?L < 2 ^ 53 \<longrightarrow> nearest_double (?P * ?L) = ?P * ?L"
    using nonneg by (auto intro!: nearest_double_id)
  have lim: "as_nat (Num (of_int ?L)) = Some (nat ?L)"
    by (rule as_nat_of_int) simp
  have sk: "as_nat (Num (of_int (nearest_double (?P * ?L)))) = Some (nat (nearest_double (?P * ?L)))"
    by (rule as_nat_of_int) (rule nearest_double_nonneg [OF nonneg])
  have "mk_regexp q = Some re \<longrightarrow>
      getAllUsers mk_regexp s q (int_query pp) (int_query pg) =
        (s, Inr (UsersBody (take (nat ?L) (drop (nat (nearest_double (?P * ?L)))
                   (find_where (\<lambda>u. re (name u)) s)))))"
    unfolding getAllUsers_def Let_def per_page_of_int skip lim sk by simp
  then show ?thesis
    using per_page_of_int [of pp] skip exact per_page_of_Num [of r] by simp
qed

theorem pagination_witness:
  "safe_query None \<and> safe_query (Some 2) \<and>
   per_page_of None = Num 2 \<and> skip_of None None = Num 0 \<and>
   per_page_of (Some (Num 0)) = Num 1 \<and>
   skip_of (Some (Num 2)) (Some (Num 1)) = Num 0 \<and>
   skip_of (Some (Num 2)) (Some (Num 0)) = Num 0 \<and>
   skip_of (Some (Num 2)) (Some (Num 3)) = Num 4 \<and>
   getAllUsers (\<lambda>q. Some (\<lambda>n. True)) [alice_doc, bob_doc, alice_follows] None (Some (Num 2))
       (Some (Num 2)) =
     ([alice_doc, bob_doc, alice_follows], Inr (UsersBody [alice_follows]))"
proof -
  note s = safe_query_examples
  have small: "nearest_double 0 = 0" "nearest_double 2 = 2" "nearest_double 4 = 4"
    by (simp_all add: nearest_double_id)
  from pagination [OF s(1) s(1), of "\<lambda>q. Some (\<lambda>n. True)" None "\<lambda>n. True" "[]" 0]
    pagination [OF s(4) s(4), of "\<lambda>q. Some (\<lambda>n. True)" None "\<lambda>n. True"
      "[alice_doc, bob_doc, alice_follows]" 2]
    pagination [OF s(4) s(5), of "\<lambda>q. Some (\<lambda>n. True)" None "\<lambda>n. True" "[]" 2]
    pagination [OF s(4) s(3), of "\<lambda>q. Some (\<lambda>n. True)" None "\<lambda>n. True" "[]" 2]
    pagination [OF s(4) s(2), of "\<lambda>q. Some (\<lambda>n. True)" None "\<lambda>n. True" "[]" 2]
    s(1) s(4)
  show ?thesis
    by (simp add: int_query_examples or_default_def find_where_def small)
qed

text \<open>
  Claim C4 as stated fails for a value that is not an integer: \<^verbatim>\<open>value * 1\<close>
  makes a number of it, not an integer, so a value that is no number stays \<open>NaN\<close>
  through \<^verbatim>\<open>Math.max\<close>, and 2.5 stays 2.5; neither is an integer of at least 1.
  It fails for large integers too: the product of doubles is rounded, and for
  \<open>per_page = 134217729\<close> and \<open>page = 134217730\<close> the skip is one less than
  (page - 1) times per_page.
\<close>

theorem pagination_counterexample:
  "per_page_of (Some NaN) = NaN \<and> as_nat (per_page_of (Some NaN)) = None \<and>
   per_page_of (Some (Num (5 / 2))) = Num (5 / 2) \<and>
   as_nat (per_page_of (Some (Num (5 / 2)))) = None \<and>
   skip_of (Some (Num 134217729)) (Some (Num 134217730)) = Num 18014398777917440 \<and>
   (134217730 - 1) * 134217729 = (18014398777917441 :: int)"
proof -
  have fl: "\<lfloor>5 / 2 :: rat\<rfloor> = 2" by (rule floor_unique) simp_all
  have frac: "as_nat (Num (5 / 2)) = None"
    unfolding as_nat_def jsnum.case fl by simp
  have "skip_of (int_query (Some 134217729)) (int_query (Some 134217730)) =
      Num (of_int (nearest_double ((max (or_default 1 (Some 134217730)) 1 - 1) *
        max (or_default 2 (Some 134217729)) 1)))"
    by (rule skip_of_int) (simp_all add: safe_query_examples)
  then have "skip_of (Some (Num 134217729)) (Some (Num 134217730)) = Num 18014398777917440"
    by (simp add: int_query_examples or_default_def nearest_double_example)
  with frac show ?thesis by (simp add: per_page_of_def as_nat_def)
qed

end
